theory Spec2Isabelle
  imports Main "HOL-Library.Word"
begin

unbundle bit_operations_syntax

section \<open>Pixel compositor (gstalphamask.c, copy\_alpha\_*)\<close>

text \<open>
  Machine types of the C source: \<open>guint8\<close>, \<open>guint\<close>/\<open>guint32\<close> and \<open>guint64\<close> are
  unsigned integers of 8, 32 and 64 bits; arithmetic on them wraps around.

  The bytes of one mapped buffer are a store from addresses to bytes. A pointer is an
  address (a natural number); pointer arithmetic does not wrap. The alpha frame is mapped
  read-only from the queued alpha buffer and the output frame from a freshly allocated
  buffer, so source and destination are two separate stores.
\<close>

type_synonym guint8 = "8 word"
type_synonym guint = "32 word"
type_synonym guint32 = "32 word"
type_synonym guint64 = "64 word"
type_synonym mem = "nat \<Rightarrow> guint8"

text \<open>
  The outer loop shared, word for word, by the three packed routines:
  \<^verbatim>\<open>for (i = 0; i < height; i++) { <body>; dst += dstride; src += sstride; }\<close>
  The state is the destination store with the two running pointers; the last argument
  but one counts the iterations already done.
\<close>

primrec for_rows ::
  "(mem \<Rightarrow> nat \<Rightarrow> nat \<Rightarrow> mem) \<Rightarrow> nat \<Rightarrow> nat \<Rightarrow> nat \<Rightarrow> mem \<times> nat \<times> nat \<Rightarrow> mem \<times> nat \<times> nat"
where
  "for_rows body dstride sstride 0 st = st"
| "for_rows body dstride sstride (Suc i) st =
     (case for_rows body dstride sstride i st of
        (m, dst, src) \<Rightarrow> (body m dst src, dst + dstride, src + sstride))"

text \<open>
  Inner loop of \<open>copy_alpha_packed_u1\<close>: \<^verbatim>\<open>for (j = 0; j < width; j++) dst[j * 4] = src[j];\<close>
  The index \<open>j * 4\<close> is computed in \<open>guint\<close>, so it wraps at \<open>2^32\<close>.
\<close>

primrec packed_u1_row :: "mem \<Rightarrow> nat \<Rightarrow> mem \<Rightarrow> nat \<Rightarrow> nat \<Rightarrow> mem" where
  "packed_u1_row m dst sm src 0 = m"
| "packed_u1_row m dst sm src (Suc j) =
     (packed_u1_row m dst sm src j)
       (dst + unat ((word_of_nat j :: guint) * 4) := sm (src + j))"

definition copy_alpha_packed_u1 ::
  "mem \<Rightarrow> nat \<Rightarrow> guint \<Rightarrow> mem \<Rightarrow> nat \<Rightarrow> guint \<Rightarrow> guint \<Rightarrow> guint \<Rightarrow> mem" where
  "copy_alpha_packed_u1 m dst dstride sm src sstride width height =
     fst (for_rows (\<lambda>m d s. packed_u1_row m d sm s (unat width))
            (unat dstride) (unat sstride) (unat height) (m, dst, src))"

text \<open>
  \<open>sd[j]\<close> with \<open>sd = (guint32 *) src\<close> reads four bytes as one 32-bit value;
  \<open>(guint64 *) src\<close> reads eight. The source reads them in the byte order of the host,
  with no \<open>G_BYTE_ORDER\<close> guard, so the host's order is an argument of the read: on a
  little-endian host the byte at the lowest address is the least significant, on a
  big-endian host the most significant.
\<close>

datatype byte_order = G_LITTLE_ENDIAN | G_BIG_ENDIAN

definition load32 :: "byte_order \<Rightarrow> mem \<Rightarrow> nat \<Rightarrow> guint32" where
  "load32 host sm a =
     (case host of
        G_LITTLE_ENDIAN \<Rightarrow>
          ucast (sm a) OR push_bit 8 (ucast (sm (a + 1))) OR
          push_bit 16 (ucast (sm (a + 2))) OR push_bit 24 (ucast (sm (a + 3)))
      | G_BIG_ENDIAN \<Rightarrow>
          ucast (sm (a + 3)) OR push_bit 8 (ucast (sm (a + 2))) OR
          push_bit 16 (ucast (sm (a + 1))) OR push_bit 24 (ucast (sm a)))"

definition load64 :: "byte_order \<Rightarrow> mem \<Rightarrow> nat \<Rightarrow> guint64" where
  "load64 host sm a =
     (case host of
        G_LITTLE_ENDIAN \<Rightarrow>
          ucast (sm a) OR push_bit 8 (ucast (sm (a + 1))) OR
          push_bit 16 (ucast (sm (a + 2))) OR push_bit 24 (ucast (sm (a + 3))) OR
          push_bit 32 (ucast (sm (a + 4))) OR push_bit 40 (ucast (sm (a + 5))) OR
          push_bit 48 (ucast (sm (a + 6))) OR push_bit 56 (ucast (sm (a + 7)))
      | G_BIG_ENDIAN \<Rightarrow>
          ucast (sm (a + 7)) OR push_bit 8 (ucast (sm (a + 6))) OR
          push_bit 16 (ucast (sm (a + 5))) OR push_bit 24 (ucast (sm (a + 4))) OR
          push_bit 32 (ucast (sm (a + 3))) OR push_bit 40 (ucast (sm (a + 2))) OR
          push_bit 48 (ucast (sm (a + 1))) OR push_bit 56 (ucast (sm a)))"

text \<open>
  Inner loop of \<open>copy_alpha_packed_u4\<close>; the state is the store with the running pointer
  \<open>dd\<close>. Each iteration reads \<open>sd[j]\<close> and writes its four bytes, lowest first, to
  \<open>dd[0]\<close>, \<open>dd[4]\<close>, \<open>dd[8]\<close>, \<open>dd[12]\<close>, then \<open>dd += 16\<close>.
\<close>

primrec packed_u4_row :: "byte_order \<Rightarrow> mem \<times> nat \<Rightarrow> mem \<Rightarrow> nat \<Rightarrow> nat \<Rightarrow> mem \<times> nat" where
  "packed_u4_row host st sm src 0 = st"
| "packed_u4_row host st sm src (Suc j) =
     (case packed_u4_row host st sm src j of
        (m, dd) \<Rightarrow>
          let c = load32 host sm (src + 4 * j);
              m = m(dd := ucast (c AND 0xff));
              c = drop_bit 8 c;
              m = m(dd + 4 := ucast (c AND 0xff));
              c = drop_bit 8 c;
              m = m(dd + 8 := ucast (c AND 0xff));
              c = drop_bit 8 c;
              m = m(dd + 12 := ucast (c AND 0xff))
          in (m, dd + 16))"

definition copy_alpha_packed_u4 ::
  "byte_order \<Rightarrow> mem \<Rightarrow> nat \<Rightarrow> guint \<Rightarrow> mem \<Rightarrow> nat \<Rightarrow> guint \<Rightarrow> guint \<Rightarrow> guint \<Rightarrow> mem" where
  "copy_alpha_packed_u4 host m dst dstride sm src sstride width height =
     (let w = drop_bit 2 width in
      fst (for_rows (\<lambda>m d s. fst (packed_u4_row host (m, d) sm s (unat w)))
             (unat dstride) (unat sstride) (unat height) (m, dst, src)))"

text \<open>Inner loop of \<open>copy_alpha_packed_u8\<close>: eight bytes per iteration, \<open>dd += 32\<close>.\<close>

primrec packed_u8_row :: "byte_order \<Rightarrow> mem \<times> nat \<Rightarrow> mem \<Rightarrow> nat \<Rightarrow> nat \<Rightarrow> mem \<times> nat" where
  "packed_u8_row host st sm src 0 = st"
| "packed_u8_row host st sm src (Suc j) =
     (case packed_u8_row host st sm src j of
        (m, dd) \<Rightarrow>
          let c = load64 host sm (src + 8 * j);
              m = m(dd := ucast (c AND 0xff));
              c = drop_bit 8 c;
              m = m(dd + 4 := ucast (c AND 0xff));
              c = drop_bit 8 c;
              m = m(dd + 8 := ucast (c AND 0xff));
              c = drop_bit 8 c;
              m = m(dd + 12 := ucast (c AND 0xff));
              c = drop_bit 8 c;
              m = m(dd + 16 := ucast (c AND 0xff));
              c = drop_bit 8 c;
              m = m(dd + 20 := ucast (c AND 0xff));
              c = drop_bit 8 c;
              m = m(dd + 24 := ucast (c AND 0xff));
              c = drop_bit 8 c;
              m = m(dd + 28 := ucast (c AND 0xff))
          in (m, dd + 32))"

definition copy_alpha_packed_u8 ::
  "byte_order \<Rightarrow> mem \<Rightarrow> nat \<Rightarrow> guint \<Rightarrow> mem \<Rightarrow> nat \<Rightarrow> guint \<Rightarrow> guint \<Rightarrow> guint \<Rightarrow> mem" where
  "copy_alpha_packed_u8 host m dst dstride sm src sstride width height =
     (let w = drop_bit 3 width in
      fst (for_rows (\<lambda>m d s. fst (packed_u8_row host (m, d) sm s (unat w)))
             (unat dstride) (unat sstride) (unat height) (m, dst, src)))"

text \<open>
  A mapped \<open>GstVideoFrame\<close>, as far as the copy routines read it: the bytes of the
  buffer, the plane pointers \<open>data[p]\<close>, the width and height of component 0 and the
  plane strides (\<open>gint\<close> in GStreamer, converted to \<open>guint\<close> by the assignments to
  \<open>w\<close>, \<open>h\<close>, \<open>ss\<close>, \<open>ds\<close>).
\<close>

record GstVideoFrame =
  bytes :: mem
  data :: "nat \<Rightarrow> nat"
  comp_width :: guint
  comp_height :: guint
  plane_stride :: "nat \<Rightarrow> guint"

text \<open>
  \<open>copy_alpha_packed\<close>, on a host of the given byte order, returns the bytes of the
  output frame after the copy.
\<close>

definition copy_alpha_packed :: "byte_order \<Rightarrow> GstVideoFrame \<Rightarrow> GstVideoFrame \<Rightarrow> mem" where
  "copy_alpha_packed host aframe oframe =
     (let sp = data aframe 0;
          dp = data oframe 0;
          w = comp_width aframe;
          h = comp_height aframe;
          ss = plane_stride aframe 0;
          ds = plane_stride oframe 0
      in if w AND 3 \<noteq> 0 then copy_alpha_packed_u1 (bytes oframe) dp ds (bytes aframe) sp ss w h
         else if w AND 7 \<noteq> 0 then copy_alpha_packed_u4 host (bytes oframe) dp ds (bytes aframe) sp ss w h
         else copy_alpha_packed_u8 host (bytes oframe) dp ds (bytes aframe) sp ss w h)"

text \<open>\<open>memcpy (dst, src, n)\<close> between the two stores.\<close>

definition memcpy :: "mem \<Rightarrow> nat \<Rightarrow> mem \<Rightarrow> nat \<Rightarrow> nat \<Rightarrow> mem" where
  "memcpy m dst sm src n = (\<lambda>a. if dst \<le> a \<and> a < dst + n then sm (src + (a - dst)) else m a)"

text \<open>
  \<open>copy_alpha_planar\<close>: one \<open>memcpy\<close> of \<open>h * ss\<close> bytes (a \<open>guint\<close> product) when the
  strides are equal, otherwise \<open>w\<close> bytes per row.
\<close>

definition copy_alpha_planar :: "GstVideoFrame \<Rightarrow> GstVideoFrame \<Rightarrow> nat \<Rightarrow> mem" where
  "copy_alpha_planar aframe oframe plane =
     (let sp = data aframe 0;
          dp = data oframe plane;
          w = comp_width aframe;
          h = comp_height aframe;
          ss = plane_stride aframe 0;
          ds = plane_stride oframe plane
      in if ss = ds then memcpy (bytes oframe) dp (bytes aframe) sp (unat (h * ss))
         else fst (for_rows (\<lambda>m d s. memcpy m d (bytes aframe) s (unat w))
                     (unat ds) (unat ss) (unat h) (bytes oframe, dp, sp)))"

text \<open>
  The reference of the specification for the planar layout, in its words: a naive per-row
  copy of \<open>width\<close> bytes per row, row \<open>i\<close> read at \<open>src + i * sstride\<close> and written at
  \<open>dst + i * dstride\<close>.
\<close>

primrec naive_row_copy :: "mem \<Rightarrow> nat \<Rightarrow> nat \<Rightarrow> mem \<Rightarrow> nat \<Rightarrow> nat \<Rightarrow> nat \<Rightarrow> nat \<Rightarrow> mem" where
  "naive_row_copy m dst dstride sm src sstride width 0 = m"
| "naive_row_copy m dst dstride sm src sstride width (Suc i) =
     memcpy (naive_row_copy m dst dstride sm src sstride width i)
       (dst + i * dstride) sm (src + i * sstride) width"

text \<open>Frames used to evaluate the copy routines on concrete inputs.\<close>

definition gray8x2 :: GstVideoFrame where
  "gray8x2 = \<lparr>bytes = (\<lambda>a. word_of_nat a), data = (\<lambda>p. 0),
     comp_width = 8, comp_height = 2, plane_stride = (\<lambda>p. 8)\<rparr>"

definition argb8x2 :: GstVideoFrame where
  "argb8x2 = \<lparr>bytes = (\<lambda>a. 0), data = (\<lambda>p. 0),
     comp_width = 8, comp_height = 2, plane_stride = (\<lambda>p. 32)\<rparr>"

definition pad_alpha :: GstVideoFrame where
  "pad_alpha = \<lparr>bytes = (\<lambda>a. if a = 3 then 9 else 7), data = (\<lambda>p. 0),
     comp_width = 3, comp_height = 1, plane_stride = (\<lambda>p. 4)\<rparr>"

definition pad_out :: GstVideoFrame where
  "pad_out = \<lparr>bytes = (\<lambda>a. 0), data = (\<lambda>p. 0),
     comp_width = 3, comp_height = 1, plane_stride = (\<lambda>p. 4)\<rparr>"


definition planar_rows_fit :: "GstVideoFrame \<Rightarrow> GstVideoFrame \<Rightarrow> nat \<Rightarrow> bool" where
  "planar_rows_fit aframe oframe plane =
     (unat (comp_width aframe) \<le> unat (plane_stride oframe plane) \<and>
      unat (comp_height aframe) * unat (plane_stride aframe 0) < 2 ^ 32)"

text \<open>Two pairs outside those frames: rows wider than the stride, and a plane of \<open>2^32\<close> bytes.\<close>

definition narrow_alpha :: GstVideoFrame where
  "narrow_alpha = \<lparr>bytes = (\<lambda>a. 5), data = (\<lambda>p. 0),
     comp_width = 2, comp_height = 1, plane_stride = (\<lambda>p. 1)\<rparr>"

definition narrow_out :: GstVideoFrame where
  "narrow_out = \<lparr>bytes = (\<lambda>a. 0), data = (\<lambda>p. 0),
     comp_width = 2, comp_height = 1, plane_stride = (\<lambda>p. 1)\<rparr>"

definition tall_alpha :: GstVideoFrame where
  "tall_alpha = \<lparr>bytes = (\<lambda>a. 5), data = (\<lambda>p. 0),
     comp_width = 1, comp_height = 65536, plane_stride = (\<lambda>p. 65536)\<rparr>"

definition tall_out :: GstVideoFrame where
  "tall_out = \<lparr>bytes = (\<lambda>a. 0), data = (\<lambda>p. 0),
     comp_width = 1, comp_height = 65536, plane_stride = (\<lambda>p. 65536)\<rparr>"

section \<open>Stream synchroniser (gstalphamask.c, the two chain functions)\<close>

text \<open>
  \<open>GstClockTime\<close> is \<open>guint64\<close>; \<open>GST_CLOCK_TIME_NONE\<close> is \<open>(GstClockTime) -1\<close>, the
  largest 64-bit value. Sums such as \<open>start + duration\<close> wrap around.
\<close>

type_synonym GstClockTime = "64 word"

definition GST_CLOCK_TIME_NONE :: GstClockTime where
  "GST_CLOCK_TIME_NONE = 0xFFFFFFFFFFFFFFFF"

definition GST_CLOCK_TIME_IS_VALID :: "GstClockTime \<Rightarrow> bool" where
  "GST_CLOCK_TIME_IS_VALID t = (t \<noteq> GST_CLOCK_TIME_NONE)"

definition GST_SECOND :: GstClockTime where
  "GST_SECOND = 1000000000"

datatype GstFormat =
  GST_FORMAT_UNDEFINED | GST_FORMAT_DEFAULT | GST_FORMAT_BYTES | GST_FORMAT_TIME
  | GST_FORMAT_BUFFERS | GST_FORMAT_PERCENT

text \<open>The fields of \<open>GstSegment\<close> the element reads or writes, and \<open>base\<close>.\<close>

record GstSegment =
  seg_format :: GstFormat
  seg_base :: GstClockTime
  seg_start :: GstClockTime
  seg_stop :: GstClockTime
  seg_position :: GstClockTime

text \<open>
  A buffer: \<open>payload\<close> identifies its memory, \<open>timestamp\<close> and \<open>duration\<close> are what
  \<open>GST_BUFFER_TIMESTAMP\<close> and \<open>GST_BUFFER_DURATION\<close> read and write.
\<close>

record GstBuffer =
  payload :: nat
  timestamp :: GstClockTime
  duration :: GstClockTime

datatype GstFlowReturn =
  GST_FLOW_OK | GST_FLOW_NOT_LINKED | GST_FLOW_FLUSHING | GST_FLOW_EOS
  | GST_FLOW_NOT_NEGOTIATED | GST_FLOW_ERROR

text \<open>
  The state of the element that the chain functions use: the two segments, the
  single-buffer alpha slot, the stream flags and the frame rate of \<open>iinfo\<close>.
\<close>

record GstAlphaMask =
  segment :: GstSegment
  alpha_segment :: GstSegment
  alpha_buffer :: "GstBuffer option"
  video_flushing :: bool
  video_eos :: bool
  alpha_flushing :: bool
  alpha_eos :: bool
  alpha_segment_done :: bool
  fps_n :: int
  fps_d :: int

text \<open>
  The chain functions call into the GStreamer library and into the downstream pad.
  Those are parameters of the model: \<open>gst_segment_clip\<close> (\<open>None\<close> when it returns
  \<open>FALSE\<close>, otherwise the clipped start and stop), \<open>gst_segment_to_running_time\<close>,
  \<open>gst_util_uint64_scale_int\<close>, and the flow returns of \<open>gst_alpha_mask_push_frame\<close>
  and of \<open>gst_pad_push\<close>. Every theorem stated for an arbitrary \<open>lib\<close> holds whatever
  the library does.
\<close>

record gst_library =
  segment_clip ::
    "GstSegment \<Rightarrow> GstClockTime \<Rightarrow> GstClockTime \<Rightarrow> (GstClockTime \<times> GstClockTime) option"
  segment_to_running_time :: "GstSegment \<Rightarrow> GstClockTime \<Rightarrow> GstClockTime"
  uint64_scale_int :: "GstClockTime \<Rightarrow> int \<Rightarrow> int \<Rightarrow> GstClockTime"
  push_frame_ret :: "GstBuffer \<Rightarrow> GstBuffer \<Rightarrow> GstFlowReturn"
  pad_push_ret :: "GstBuffer \<Rightarrow> GstFlowReturn"

text \<open>
  What a chain function does with the video buffer it was given:
  \<open>Push_frame v a\<close> is the call \<open>gst_alpha_mask_push_frame (thiz, v)\<close> made while \<open>a\<close>
  is the queued alpha buffer (the composited frame), \<open>Pad_push v\<close> is
  \<open>gst_pad_push (thiz->srcpad, v)\<close> (the buffer forwarded as it is) and
  \<open>Buffer_unref v\<close> is \<open>gst_buffer_unref (v)\<close> (the buffer dropped).
\<close>

datatype action =
  Push_frame GstBuffer GstBuffer
  | Pad_push GstBuffer
  | Buffer_unref GstBuffer

definition gst_alpha_mask_pop_alpha :: "GstAlphaMask \<Rightarrow> GstAlphaMask" where
  "gst_alpha_mask_pop_alpha thiz = thiz\<lparr>alpha_buffer := None\<rparr>"

datatype discard = Missing_timestamp | Out_of_segment

text \<open>
  \<open>gst_alpha_mask_video_chain\<close> up to the label \<open>wait_for_alpha_buf\<close>: the timestamp
  check, the clip against the video segment and the estimate of a missing stop. It
  yields the buffer with its stamps fixed up and the locals \<open>start\<close>, \<open>stop\<close> and
  \<open>clip_start\<close>. The locals \<open>start\<close> and \<open>stop\<close> are never assigned the clipped values.
\<close>

definition video_clip ::
  "gst_library \<Rightarrow> GstAlphaMask \<Rightarrow> GstBuffer \<Rightarrow>
     discard + (GstBuffer \<times> GstClockTime \<times> GstClockTime \<times> GstClockTime)" where
  "video_clip lib thiz buffer =
     (if \<not> GST_CLOCK_TIME_IS_VALID (timestamp buffer) then Inl Missing_timestamp
      else
        let start = timestamp buffer;
            stop = (if \<not> GST_CLOCK_TIME_IS_VALID (duration buffer) then GST_CLOCK_TIME_NONE
                    else start + duration buffer)
        in if stop = GST_CLOCK_TIME_NONE \<and> start < seg_start (segment thiz)
           then Inl Out_of_segment
           else
             case segment_clip lib (segment thiz) start stop of
               None \<Rightarrow> Inl Out_of_segment
             | Some (clip_start, clip_stop) \<Rightarrow>
                 let buffer =
                       (if clip_start \<noteq> start \<or>
                           (stop \<noteq> GST_CLOCK_TIME_NONE \<and> clip_stop \<noteq> stop)
                        then (let buffer = buffer\<lparr>timestamp := clip_start\<rparr>
                              in if stop \<noteq> GST_CLOCK_TIME_NONE
                                 then buffer\<lparr>duration := clip_stop - clip_start\<rparr>
                                 else buffer)
                        else buffer);
                     stop =
                       (if stop = GST_CLOCK_TIME_NONE
                        then (if fps_n thiz \<noteq> 0 \<and> fps_d thiz \<noteq> 0
                              then start + uint64_scale_int lib GST_SECOND (fps_d thiz) (fps_n thiz)
                              else start + 1)
                        else stop)
                 in Inr (buffer, start, stop, clip_start))"

text \<open>
  The locals of the branch taken when an alpha buffer is queued (lines 494--527), each
  as a function of what it is computed from.
\<close>

definition valid_alpha_time :: "GstBuffer \<Rightarrow> bool" where
  "valid_alpha_time abuf =
     (GST_CLOCK_TIME_IS_VALID (timestamp abuf) \<and> GST_CLOCK_TIME_IS_VALID (duration abuf))"

definition alpha_start :: "GstBuffer \<Rightarrow> GstClockTime" where
  "alpha_start abuf = (if valid_alpha_time abuf then timestamp abuf else GST_CLOCK_TIME_NONE)"

definition alpha_end :: "GstBuffer \<Rightarrow> GstClockTime" where
  "alpha_end abuf =
     (if valid_alpha_time abuf then alpha_start abuf + duration abuf else GST_CLOCK_TIME_NONE)"

definition vid_running_time :: "gst_library \<Rightarrow> GstAlphaMask \<Rightarrow> GstClockTime \<Rightarrow> GstClockTime" where
  "vid_running_time lib thiz start = segment_to_running_time lib (segment thiz) start"

definition vid_running_time_end :: "gst_library \<Rightarrow> GstAlphaMask \<Rightarrow> GstClockTime \<Rightarrow> GstClockTime" where
  "vid_running_time_end lib thiz stop = segment_to_running_time lib (segment thiz) stop"

definition alpha_running_time :: "gst_library \<Rightarrow> GstAlphaMask \<Rightarrow> GstBuffer \<Rightarrow> GstClockTime" where
  "alpha_running_time lib thiz abuf =
     (if valid_alpha_time abuf
      then segment_to_running_time lib (alpha_segment thiz) (alpha_start abuf)
      else GST_CLOCK_TIME_NONE)"

definition alpha_running_time_end :: "gst_library \<Rightarrow> GstAlphaMask \<Rightarrow> GstBuffer \<Rightarrow> GstClockTime" where
  "alpha_running_time_end lib thiz abuf =
     (if valid_alpha_time abuf
      then segment_to_running_time lib (alpha_segment thiz) (alpha_end abuf)
      else GST_CLOCK_TIME_NONE)"

text \<open>\<open>thiz->segment.position = clip_start\<close>, the statement before \<open>return ret\<close>.\<close>

definition update_position :: "GstClockTime \<Rightarrow> GstAlphaMask \<Rightarrow> GstAlphaMask" where
  "update_position clip_start thiz = thiz\<lparr>segment := (segment thiz)\<lparr>seg_position := clip_start\<rparr>\<rparr>"

text \<open>
  One pass from the label \<open>wait_for_alpha_buf\<close> either returns or jumps back to the
  label; the flag tells whether the jump follows \<open>GST_ALPHA_MASK_WAIT\<close>.
\<close>

datatype outcome = Return GstFlowReturn | Goto_wait_for_alpha_buf bool

text \<open>
  The branch for an empty slot (lines 565--591) computes \<open>wait_for_alpha_buf\<close>;
  \<open>no_need_to_wait\<close> is its negation. The video running time is computed here from
  \<open>GST_BUFFER_TIMESTAMP (buffer)\<close>, the stamp after the fix-up.
\<close>

definition no_need_to_wait :: "gst_library \<Rightarrow> GstAlphaMask \<Rightarrow> GstBuffer \<Rightarrow> bool" where
  "no_need_to_wait lib thiz buffer =
     (let wait_for_alpha_buf = True;
          wait_for_alpha_buf =
            (if alpha_eos thiz \<or> alpha_segment_done thiz then False else wait_for_alpha_buf);
          wait_for_alpha_buf =
            (if seg_format (alpha_segment thiz) = GST_FORMAT_TIME
             then
               let vid_running_time =
                     segment_to_running_time lib (segment thiz) (timestamp buffer);
                   alpha_start_running_time =
                     segment_to_running_time lib (alpha_segment thiz) (seg_start (alpha_segment thiz));
                   alpha_position_running_time =
                     segment_to_running_time lib (alpha_segment thiz) (seg_position (alpha_segment thiz))
               in if (GST_CLOCK_TIME_IS_VALID alpha_start_running_time \<and>
                      vid_running_time < alpha_start_running_time) \<or>
                     (GST_CLOCK_TIME_IS_VALID alpha_position_running_time \<and>
                      vid_running_time < alpha_position_running_time)
                  then False else wait_for_alpha_buf
             else wait_for_alpha_buf)
      in \<not> wait_for_alpha_buf)"

text \<open>
  One pass of \<open>gst_alpha_mask_video_chain\<close> from the label \<open>wait_for_alpha_buf\<close>, run
  with no interference from the other streaming thread: the outcome, what was done with
  the video buffer, and the state left behind.
\<close>

definition video_decide ::
  "gst_library \<Rightarrow> GstAlphaMask \<Rightarrow> GstBuffer \<Rightarrow> GstClockTime \<Rightarrow> GstClockTime \<Rightarrow> GstClockTime \<Rightarrow>
     outcome \<times> action list \<times> GstAlphaMask" where
  "video_decide lib thiz buffer start stop clip_start =
     (if video_flushing thiz then (Return GST_FLOW_FLUSHING, [Buffer_unref buffer], thiz)
      else if video_eos thiz then (Return GST_FLOW_EOS, [Buffer_unref buffer], thiz)
      else
        case alpha_buffer thiz of
          Some abuf \<Rightarrow>
            let pop_alpha = \<not> valid_alpha_time abuf
            in if valid_alpha_time abuf \<and>
                  alpha_running_time_end lib thiz abuf \<le> vid_running_time lib thiz start
               then (Goto_wait_for_alpha_buf False, [], gst_alpha_mask_pop_alpha thiz)
               else if valid_alpha_time abuf \<and>
                  vid_running_time_end lib thiz stop \<le> alpha_running_time lib thiz abuf
               then (Return GST_FLOW_OK, [Buffer_unref buffer],
                     update_position clip_start
                       (if pop_alpha then gst_alpha_mask_pop_alpha thiz else thiz))
               else
                 let ret = push_frame_ret lib buffer abuf;
                     pop_alpha =
                       (if valid_alpha_time abuf \<and>
                           alpha_running_time_end lib thiz abuf \<le> vid_running_time_end lib thiz stop
                        then True else pop_alpha)
                 in (Return ret, [Push_frame buffer abuf],
                     update_position clip_start
                       (if pop_alpha then gst_alpha_mask_pop_alpha thiz else thiz))
        | None \<Rightarrow>
            if \<not> no_need_to_wait lib thiz buffer
            then (Goto_wait_for_alpha_buf True, [], thiz)
            else (Return (pad_push_ret lib buffer), [Pad_push buffer],
                  update_position clip_start thiz))"

text \<open>
  The loop formed by \<open>goto wait_for_alpha_buf\<close>. Between two passes the lock is
  released (or the thread sleeps in \<open>g_cond_wait\<close>), and the rest of the pipeline may
  change the element: the list gives, for each jump, what it did to the state by the time
  the lock is taken again (\<open>id\<close> when it did nothing). The result is \<open>None\<close> when the
  list ends before the function returns: the thread is still in the loop.
\<close>

fun video_loop ::
  "gst_library \<Rightarrow> (GstAlphaMask \<Rightarrow> GstAlphaMask) list \<Rightarrow> GstAlphaMask \<Rightarrow> GstBuffer \<Rightarrow>
     GstClockTime \<Rightarrow> GstClockTime \<Rightarrow> GstClockTime \<Rightarrow>
     (GstFlowReturn \<times> action list \<times> GstAlphaMask) option" where
  "video_loop lib [] thiz buffer start stop clip_start =
     (case video_decide lib thiz buffer start stop clip_start of
        (Return ret, acts, thiz') \<Rightarrow> Some (ret, acts, thiz')
      | (Goto_wait_for_alpha_buf waited, acts, thiz') \<Rightarrow> None)"
| "video_loop lib (e # env) thiz buffer start stop clip_start =
     (case video_decide lib thiz buffer start stop clip_start of
        (Return ret, acts, thiz') \<Rightarrow> Some (ret, acts, thiz')
      | (Goto_wait_for_alpha_buf waited, acts, thiz') \<Rightarrow>
          video_loop lib env (e thiz') buffer start stop clip_start)"

definition gst_alpha_mask_video_chain ::
  "gst_library \<Rightarrow> (GstAlphaMask \<Rightarrow> GstAlphaMask) list \<Rightarrow> GstAlphaMask \<Rightarrow> GstBuffer \<Rightarrow>
     (GstFlowReturn \<times> action list \<times> GstAlphaMask) option" where
  "gst_alpha_mask_video_chain lib env thiz buffer =
     (case video_clip lib thiz buffer of
        Inl why \<Rightarrow> Some (GST_FLOW_OK, [Buffer_unref buffer], thiz)
      | Inr (buffer', start, stop, clip_start) \<Rightarrow>
          video_loop lib env thiz buffer' start stop clip_start)"

text \<open>
  \<open>while (thiz->alpha_buffer != NULL) { GST_ALPHA_MASK_WAIT; if (thiz->alpha_flushing)
  ... }\<close> of \<open>gst_alpha_mask_alpha_chain\<close>: each wait consumes one change of the
  environment; \<open>Inl\<close> is the exit through flushing, \<open>None\<close> a wait that has not ended.
\<close>

fun alpha_wait ::
  "(GstAlphaMask \<Rightarrow> GstAlphaMask) list \<Rightarrow> GstAlphaMask \<Rightarrow> (GstAlphaMask + GstAlphaMask) option" where
  "alpha_wait [] thiz = (if alpha_buffer thiz \<noteq> None then None else Some (Inr thiz))"
| "alpha_wait (e # env) thiz =
     (if alpha_buffer thiz \<noteq> None
      then (let thiz = e thiz
            in if alpha_flushing thiz then Some (Inl thiz) else alpha_wait env thiz)
      else Some (Inr thiz))"

text \<open>
  \<open>gst_alpha_mask_alpha_chain\<close>. \<open>clip_start\<close> and \<open>clip_stop\<close> are initialised to 0
  and keep that value when \<open>gst_segment_clip\<close> is not called.
\<close>

definition gst_alpha_mask_alpha_chain ::
  "gst_library \<Rightarrow> (GstAlphaMask \<Rightarrow> GstAlphaMask) list \<Rightarrow> GstAlphaMask \<Rightarrow> GstBuffer \<Rightarrow>
     (GstFlowReturn \<times> action list \<times> GstAlphaMask) option" where
  "gst_alpha_mask_alpha_chain lib env thiz buffer =
     (if alpha_flushing thiz then Some (GST_FLOW_FLUSHING, [Buffer_unref buffer], thiz)
      else if alpha_eos thiz then Some (GST_FLOW_EOS, [Buffer_unref buffer], thiz)
      else
        let (in_seg, clip_start, clip_stop) =
              (if GST_CLOCK_TIME_IS_VALID (timestamp buffer)
               then
                 let stop = (if GST_CLOCK_TIME_IS_VALID (duration buffer)
                             then timestamp buffer + duration buffer
                             else GST_CLOCK_TIME_NONE)
                 in case segment_clip lib (alpha_segment thiz) (timestamp buffer) stop of
                      None \<Rightarrow> (False, 0, 0)
                    | Some (clip_start, clip_stop) \<Rightarrow> (True, clip_start, clip_stop)
               else (True, 0, 0))
        in if in_seg
           then
             let buffer = (if GST_CLOCK_TIME_IS_VALID (timestamp buffer)
                           then buffer\<lparr>timestamp := clip_start\<rparr> else buffer);
                 buffer = (if GST_CLOCK_TIME_IS_VALID (duration buffer)
                           then buffer\<lparr>duration := clip_stop - clip_start\<rparr> else buffer)
             in case alpha_wait env thiz of
                  None \<Rightarrow> None
                | Some (Inl thiz) \<Rightarrow> Some (GST_FLOW_FLUSHING, [Buffer_unref buffer], thiz)
                | Some (Inr thiz) \<Rightarrow>
                    let thiz = (if GST_CLOCK_TIME_IS_VALID (timestamp buffer)
                                then thiz\<lparr>alpha_segment :=
                                            (alpha_segment thiz)\<lparr>seg_position := clip_start\<rparr>\<rparr>
                                else thiz)
                    in Some (GST_FLOW_OK, [], thiz\<lparr>alpha_buffer := Some buffer\<rparr>)
           else Some (GST_FLOW_OK, [Buffer_unref buffer], thiz))"

subsection \<open>The rule of the specification for an empty slot\<close>

text \<open>
  Section 4.3, step 5, in the words of the specification: do not wait if the alpha stream
  has signalled end-of-stream or segment-done, or if the alpha segment is in TIME format
  and the running time of the video buffer is strictly less than the running time of the
  alpha segment's start or of its position, each compared only when that running time is
  valid.
\<close>

definition spec_do_not_wait :: "gst_library \<Rightarrow> GstAlphaMask \<Rightarrow> GstBuffer \<Rightarrow> bool" where
  "spec_do_not_wait lib thiz buffer =
     (alpha_eos thiz \<or> alpha_segment_done thiz \<or>
      (seg_format (alpha_segment thiz) = GST_FORMAT_TIME \<and>
       ((GST_CLOCK_TIME_IS_VALID
           (segment_to_running_time lib (alpha_segment thiz) (seg_start (alpha_segment thiz))) \<and>
         segment_to_running_time lib (segment thiz) (timestamp buffer) <
           segment_to_running_time lib (alpha_segment thiz) (seg_start (alpha_segment thiz))) \<or>
        (GST_CLOCK_TIME_IS_VALID
           (segment_to_running_time lib (alpha_segment thiz) (seg_position (alpha_segment thiz))) \<and>
         segment_to_running_time lib (segment thiz) (timestamp buffer) <
           segment_to_running_time lib (alpha_segment thiz) (seg_position (alpha_segment thiz))))))"

subsection \<open>An instance of the library, for concrete runs\<close>

text \<open>
  The functions \<open>gst_segment_clip\<close>, \<open>gst_segment_to_running_time\<close> and
  \<open>gst_util_uint64_scale_int\<close> belong to the GStreamer library, whose source is not part
  of this repository. The instance below is for a forward segment played at rate 1.0
  without offset, and is used only to run the chain functions on concrete buffers.
\<close>

text \<open>
  Modelled from the spec: \<open>gst_segment_clip\<close>, missing from the repository. Section 4.1:
  interval intersection against the segment's \<open>[start, stop)\<close>, rejection when the
  intersection is empty. With an unknown stop the start is moved up to the segment start,
  as the comment at lines 446--447 of gstalphamask.c records ("segment_clip() will adjust
  start unconditionally to segment_start if no stop time is provided").
\<close>

definition gst_segment_clip ::
  "GstSegment \<Rightarrow> GstClockTime \<Rightarrow> GstClockTime \<Rightarrow> (GstClockTime \<times> GstClockTime) option" where
  "gst_segment_clip seg start stop =
     (if seg_format seg \<noteq> GST_FORMAT_TIME then None
      else if seg_stop seg \<noteq> GST_CLOCK_TIME_NONE \<and> start \<noteq> GST_CLOCK_TIME_NONE \<and>
              (seg_stop seg < start \<or> (seg_start seg \<noteq> seg_stop seg \<and> start = seg_stop seg))
      then None
      else if stop \<noteq> GST_CLOCK_TIME_NONE \<and>
              (stop < seg_start seg \<or> (start \<noteq> stop \<and> stop = seg_start seg))
      then None
      else Some (if start = GST_CLOCK_TIME_NONE then GST_CLOCK_TIME_NONE
                 else max start (seg_start seg),
                 if stop = GST_CLOCK_TIME_NONE then seg_stop seg
                 else if seg_stop seg = GST_CLOCK_TIME_NONE then stop
                 else min stop (seg_stop seg)))"

text \<open>
  Modelled from the spec: \<open>gst_segment_to_running_time\<close>, missing from the repository.
  Section 4.1: a timestamp is mapped through the segment onto the running-time axis and
  an undefined timestamp has an undefined running time; so has a position outside the
  segment.
\<close>

definition gst_segment_to_running_time :: "GstSegment \<Rightarrow> GstClockTime \<Rightarrow> GstClockTime" where
  "gst_segment_to_running_time seg position =
     (if seg_format seg \<noteq> GST_FORMAT_TIME then GST_CLOCK_TIME_NONE
      else if position = GST_CLOCK_TIME_NONE then GST_CLOCK_TIME_NONE
      else if position < seg_start seg then GST_CLOCK_TIME_NONE
      else if seg_stop seg \<noteq> GST_CLOCK_TIME_NONE \<and> seg_stop seg < position
      then GST_CLOCK_TIME_NONE
      else position - seg_start seg + seg_base seg)"

text \<open>
  Modelled from the spec: \<open>gst_util_uint64_scale_int\<close>, missing from the repository. It
  scales \<open>val\<close> by \<open>num / denom\<close>, rounding down; section 4.3, step 2 uses it for the
  duration of one frame at the negotiated frame rate.
\<close>

definition gst_util_uint64_scale_int :: "GstClockTime \<Rightarrow> int \<Rightarrow> int \<Rightarrow> GstClockTime" where
  "gst_util_uint64_scale_int val num denom =
     (if num < 0 \<or> denom \<le> 0 then GST_CLOCK_TIME_NONE
      else let r = (uint val * num) div denom
           in if 2 ^ 64 \<le> r then GST_CLOCK_TIME_NONE else word_of_int r)"

definition gst :: gst_library where
  "gst = \<lparr>segment_clip = gst_segment_clip,
          segment_to_running_time = gst_segment_to_running_time,
          uint64_scale_int = gst_util_uint64_scale_int,
          push_frame_ret = (\<lambda>buffer abuf. GST_FLOW_OK),
          pad_push_ret = (\<lambda>buffer. GST_FLOW_OK)\<rparr>"

text \<open>
  Concrete states and buffers: a TIME segment that starts at \<open>s\<close>; an element in the
  playing state with the given segment starts and slot content; the same element after a
  gap event moved the alpha position, and after the alpha stream signalled end-of-stream;
  a buffer with the given stamps.
\<close>

definition time_segment :: "GstClockTime \<Rightarrow> GstSegment" where
  "time_segment s = \<lparr>seg_format = GST_FORMAT_TIME, seg_base = 0, seg_start = s,
     seg_stop = GST_CLOCK_TIME_NONE, seg_position = s\<rparr>"

definition playing :: "GstClockTime \<Rightarrow> GstClockTime \<Rightarrow> GstBuffer option \<Rightarrow> GstAlphaMask" where
  "playing vs as slot = \<lparr>segment = time_segment vs, alpha_segment = time_segment as,
     alpha_buffer = slot, video_flushing = False, video_eos = False, alpha_flushing = False,
     alpha_eos = False, alpha_segment_done = False, fps_n = 30, fps_d = 1\<rparr>"

definition after_gap :: "GstClockTime \<Rightarrow> GstAlphaMask" where
  "after_gap pos = (playing 0 0 None)\<lparr>alpha_segment := (time_segment 0)\<lparr>seg_position := pos\<rparr>\<rparr>"

definition alpha_at_eos :: "GstBuffer option \<Rightarrow> GstAlphaMask" where
  "alpha_at_eos slot = (playing 0 0 slot)\<lparr>alpha_eos := True\<rparr>"

definition buf :: "nat \<Rightarrow> GstClockTime \<Rightarrow> GstClockTime \<Rightarrow> GstBuffer" where
  "buf n ts dur = \<lparr>payload = n, timestamp = ts, duration = dur\<rparr>"

section \<open>Properties of the compositor\<close>

subsection \<open>Reading the bytes of a word\<close>

lemma ff32: "(0xff :: 32 word) = mask 8"
  by (simp add: mask_eq_exp_minus_1)

lemma ff64: "(0xff :: 64 word) = mask 8"
  by (simp add: mask_eq_exp_minus_1)



text \<open>
  On a big-endian host the lowest byte of the word is the byte at the highest address:
  the batch loops then store the bytes of each group in reverse order.
\<close>

lemma load32_big_endian_low_byte: "ucast (load32 G_BIG_ENDIAN sm a AND 0xff) = sm (a + 3)"
  unfolding load32_def byte_order.case ff32
  by (rule bit_word_eqI; auto simp: bit_simps dest: bit_imp_le_length)

lemma load64_big_endian_low_byte: "ucast (load64 G_BIG_ENDIAN sm a AND 0xff) = sm (a + 7)"
  unfolding load64_def byte_order.case ff64
  by (rule bit_word_eqI; auto simp: bit_simps dest: bit_imp_le_length)

subsection \<open>The batch loops, one row\<close>


lemma u4_row_ptr: "snd (packed_u4_row host (m, d) sm s n) = d + 16 * n"
  by (induction n) (auto simp: Let_def split: prod.splits)

lemma u8_row_ptr: "snd (packed_u8_row host (m, d) sm s n) = d + 32 * n"
  by (induction n) (auto simp: Let_def split: prod.splits)




text \<open>What one iteration of a batch loop writes, on any host.\<close>

lemma u4_row_writes: "fst (packed_u4_row host (m, d) sm s (Suc n)) =
  (fst (packed_u4_row host (m, d) sm s n))
    (d + (16 * n) := ucast (load32 host sm (s + 4 * n) AND 0xff),
     d + (16 * n + 4) := ucast (drop_bit 8 (load32 host sm (s + 4 * n)) AND 0xff),
     d + (16 * n + 8) := ucast (drop_bit 16 (load32 host sm (s + 4 * n)) AND 0xff),
     d + (16 * n + 12) := ucast (drop_bit 24 (load32 host sm (s + 4 * n)) AND 0xff))"
proof -
  obtain m' dd where p: "packed_u4_row host (m, d) sm s n = (m', dd)"
    by (cases "packed_u4_row host (m, d) sm s n")
  have dd: "dd = d + 16 * n" using u4_row_ptr[of host m d sm s n] p by simp
  show ?thesis
    by (simp add: p dd Let_def add.assoc)
qed

lemma u8_row_writes: "fst (packed_u8_row host (m, d) sm s (Suc n)) =
  (fst (packed_u8_row host (m, d) sm s n))
    (d + (32 * n) := ucast (load64 host sm (s + 8 * n) AND 0xff),
     d + (32 * n + 4) := ucast (drop_bit 8 (load64 host sm (s + 8 * n)) AND 0xff),
     d + (32 * n + 8) := ucast (drop_bit 16 (load64 host sm (s + 8 * n)) AND 0xff),
     d + (32 * n + 12) := ucast (drop_bit 24 (load64 host sm (s + 8 * n)) AND 0xff),
     d + (32 * n + 16) := ucast (drop_bit 32 (load64 host sm (s + 8 * n)) AND 0xff),
     d + (32 * n + 20) := ucast (drop_bit 40 (load64 host sm (s + 8 * n)) AND 0xff),
     d + (32 * n + 24) := ucast (drop_bit 48 (load64 host sm (s + 8 * n)) AND 0xff),
     d + (32 * n + 28) := ucast (drop_bit 56 (load64 host sm (s + 8 * n)) AND 0xff))"
proof -
  obtain m' dd where p: "packed_u8_row host (m, d) sm s n = (m', dd)"
    by (cases "packed_u8_row host (m, d) sm s n")
  have dd: "dd = d + 32 * n" using u8_row_ptr[of host m d sm s n] p by simp
  show ?thesis
    by (simp add: p dd Let_def add.assoc)
qed





subsection \<open>The row loop and the bytes a routine can write\<close>

lemma for_rows_ptrs: "snd (for_rows body ds ss n (m, d, s)) = (d + n * ds, s + n * ss)"
  by (induction n) (auto split: prod.splits)

lemma for_rows_step:
  "fst (for_rows body ds ss (Suc n) (m, d, s)) =
     body (fst (for_rows body ds ss n (m, d, s))) (d + n * ds) (s + n * ss)"
proof -
  obtain m' d' s' where p: "for_rows body ds ss n (m, d, s) = (m', d', s')"
    by (cases "for_rows body ds ss n (m, d, s)")
  have "(d', s') = (d + n * ds, s + n * ss)" using for_rows_ptrs[of body ds ss n m d s] p by simp
  then show ?thesis by (simp add: p)
qed

lemma for_rows_frame:
  "(\<And>i m' s'. i < n \<Longrightarrow> body m' (d + i * ds) s' a = m' a) \<Longrightarrow>
   fst (for_rows body ds ss n (m, d, s)) a = m a"
proof (induction n)
  case 0
  show ?case by simp
next
  case (Suc n)
  have "fst (for_rows body ds ss n (m, d, s)) a = m a" using Suc by simp
  moreover have "body (fst (for_rows body ds ss n (m, d, s))) (d + n * ds) (s + n * ss) a
      = fst (for_rows body ds ss n (m, d, s)) a"
    using Suc.prems[of n] by simp
  ultimately show ?case unfolding for_rows_step by simp
qed

lemma mul4_wrap: "unat ((word_of_nat j :: guint) * 4) = 4 * (j mod 2 ^ 30)"
proof -
  have "unat ((word_of_nat j :: guint) * 4) = (j mod 4294967296 * 4) mod 4294967296"
    by (simp add: unat_word_ariths unat_of_nat)
  also have "\<dots> = (j * 4) mod 4294967296" by (rule mod_mult_left_eq)
  also have "\<dots> = (4 * j) mod (4 * 1073741824)" by (simp add: mult.commute)
  also have "\<dots> = 4 * (j mod 1073741824)" by (rule mult_mod_right[symmetric])
  finally show ?thesis by simp
qed

lemma u1_row_frame:
  "(\<And>j. j < n \<Longrightarrow> a \<noteq> d + 4 * j) \<Longrightarrow> packed_u1_row m d sm s n a = m a"
proof (induction n)
  case 0
  show ?case by simp
next
  case (Suc n)
  have "n mod 2 ^ 30 < Suc n" by (simp add: le_imp_less_Suc)
  then have "a \<noteq> d + 4 * (n mod 2 ^ 30)" using Suc.prems by blast
  moreover have "packed_u1_row m d sm s n a = m a" using Suc by simp
  ultimately show ?case by (simp add: mul4_wrap)
qed

lemma u4_row_frame:
  "(\<And>j. j < 4 * n \<Longrightarrow> a \<noteq> d + 4 * j) \<Longrightarrow>
   fst (packed_u4_row host (m, d) sm s n) a = m a"
proof (induction n)
  case 0
  show ?case by simp
next
  case (Suc n)
  have ih: "fst (packed_u4_row host (m, d) sm s n) a = m a" using Suc by simp
  have "a \<noteq> d + (16 * n)" "a \<noteq> d + (16 * n + 4)" "a \<noteq> d + (16 * n + 8)" "a \<noteq> d + (16 * n + 12)"
    using Suc.prems[of "4 * n"] Suc.prems[of "4 * n + 1"] Suc.prems[of "4 * n + 2"] Suc.prems[of "4 * n + 3"] by simp_all
  then show ?case unfolding u4_row_writes using ih by simp
qed

lemma u8_row_frame:
  "(\<And>j. j < 8 * n \<Longrightarrow> a \<noteq> d + 4 * j) \<Longrightarrow>
   fst (packed_u8_row host (m, d) sm s n) a = m a"
proof (induction n)
  case 0
  show ?case by simp
next
  case (Suc n)
  have ih: "fst (packed_u8_row host (m, d) sm s n) a = m a" using Suc by simp
  have "a \<noteq> d + (32 * n)" "a \<noteq> d + (32 * n + 4)" "a \<noteq> d + (32 * n + 8)" "a \<noteq> d + (32 * n + 12)" "a \<noteq> d + (32 * n + 16)" "a \<noteq> d + (32 * n + 20)" "a \<noteq> d + (32 * n + 24)" "a \<noteq> d + (32 * n + 28)"
    using Suc.prems[of "8 * n"] Suc.prems[of "8 * n + 1"] Suc.prems[of "8 * n + 2"] Suc.prems[of "8 * n + 3"] Suc.prems[of "8 * n + 4"] Suc.prems[of "8 * n + 5"] Suc.prems[of "8 * n + 6"] Suc.prems[of "8 * n + 7"] by simp_all
  then show ?case unfolding u8_row_writes using ih by simp
qed

lemma unat_drop2: "unat (drop_bit 2 (w :: guint)) = unat w div 4"
  by (simp add: drop_bit_eq_div unat_div)

lemma unat_drop3: "unat (drop_bit 3 (w :: guint)) = unat w div 8"
  by (simp add: drop_bit_eq_div unat_div)

lemma drop_bit_le4: "4 * unat (drop_bit 2 (w :: guint)) \<le> unat w"
  unfolding unat_drop2 by simp

lemma drop_bit_le8: "8 * unat (drop_bit 3 (w :: guint)) \<le> unat w"
  unfolding unat_drop3 by simp








lemma u1_frame:
  "(\<And>i j. i < unat height \<Longrightarrow> j < unat width \<Longrightarrow> a \<noteq> dst + i * unat dstride + 4 * j) \<Longrightarrow>
   copy_alpha_packed_u1 m dst dstride sm src sstride width height a = m a"
  unfolding copy_alpha_packed_u1_def
  by (rule for_rows_frame) (simp add: u1_row_frame)

lemma u4_frame:
  assumes "\<And>i j. i < unat height \<Longrightarrow> j < unat width \<Longrightarrow> a \<noteq> dst + i * unat dstride + 4 * j"
  shows "copy_alpha_packed_u4 host m dst dstride sm src sstride width height a = m a"
  unfolding copy_alpha_packed_u4_def Let_def
proof (rule for_rows_frame)
  fix i m' s'
  assume i: "i < unat height"
  show "fst (packed_u4_row host (m', dst + i * unat dstride) sm s' (unat (drop_bit 2 width))) a
          = m' a"
  proof (rule u4_row_frame)
    fix j assume "j < 4 * unat (drop_bit 2 width)"
    then have "j < unat width" using drop_bit_le4[of width] by simp
    then show "a \<noteq> dst + i * unat dstride + 4 * j" using assms i by simp
  qed
qed

lemma u8_frame:
  assumes "\<And>i j. i < unat height \<Longrightarrow> j < unat width \<Longrightarrow> a \<noteq> dst + i * unat dstride + 4 * j"
  shows "copy_alpha_packed_u8 host m dst dstride sm src sstride width height a = m a"
  unfolding copy_alpha_packed_u8_def Let_def
proof (rule for_rows_frame)
  fix i m' s'
  assume i: "i < unat height"
  show "fst (packed_u8_row host (m', dst + i * unat dstride) sm s' (unat (drop_bit 3 width))) a
          = m' a"
  proof (rule u8_row_frame)
    fix j assume "j < 8 * unat (drop_bit 3 width)"
    then have "j < unat width" using drop_bit_le8[of width] by simp
    then show "a \<noteq> dst + i * unat dstride + 4 * j" using assms i by simp
  qed
qed

lemma packed_frame:
  assumes "\<And>i j. i < unat (comp_height aframe) \<Longrightarrow> j < unat (comp_width aframe) \<Longrightarrow>
             a \<noteq> data oframe 0 + i * unat (plane_stride oframe 0) + 4 * j"
  shows "copy_alpha_packed host aframe oframe a = bytes oframe a"
  using assms by (simp add: copy_alpha_packed_def Let_def u1_frame u4_frame u8_frame)

lemma non_alpha_offset:
  assumes "4 dvd (ds :: nat)" and "c \<in> {1, 2, 3}"
  shows "dp + i' * ds + 4 * j' + c \<noteq> dp + i * ds + 4 * j"
proof
  assume e: "dp + i' * ds + 4 * j' + c = dp + i * ds + 4 * j"
  obtain k where k: "ds = 4 * k" using assms(1) by (auto simp: dvd_def)
  have "4 * (i' * k + j') + c = 4 * (i * k + j)" using e by (simp add: k algebra_simps)
  then have "(4 * (i' * k + j') + c) mod 4 = (4 * (i * k + j)) mod 4" by (rule arg_cong)
  moreover have "(4 * x + c) mod 4 = c mod 4" for x :: nat by simp
  moreover have "(4 * x) mod 4 = 0" for x :: nat by simp
  ultimately have "c mod 4 = 0" by (simp only:)
  then show False using assms(2) by auto
qed

text \<open>
  Claim C9. The packed compositor writes alpha bytes only: a byte of the output store
  that is not byte 0 of a pixel \<open>(i, j)\<close> of the frame (address
  \<open>data + i * stride + 4 * j\<close>) keeps its value. In the interleaved layout, where a row
  is a whole number of 4-byte pixels (the stride is a multiple of 4), the bytes 1, 2
  and 3 of every pixel therefore keep the value the converter gave them. This holds for
  the three loops, whichever one the width is routed to, and on a host of either byte
  order.
\<close>

theorem packed_writes_only_alpha_bytes:
  "((\<forall>i j. i < unat (comp_height aframe) \<longrightarrow> j < unat (comp_width aframe) \<longrightarrow>
        a \<noteq> data oframe 0 + i * unat (plane_stride oframe 0) + 4 * j) \<longrightarrow>
      copy_alpha_packed host aframe oframe a = bytes oframe a) \<and>
   (4 dvd unat (plane_stride oframe 0) \<longrightarrow> c \<in> {1, 2, 3} \<longrightarrow>
      copy_alpha_packed host aframe oframe
        (data oframe 0 + i * unat (plane_stride oframe 0) + 4 * j + c) =
      bytes oframe (data oframe 0 + i * unat (plane_stride oframe 0) + 4 * j + c))"
proof (intro conjI impI)
  assume "\<forall>i j. i < unat (comp_height aframe) \<longrightarrow> j < unat (comp_width aframe) \<longrightarrow>
        a \<noteq> data oframe 0 + i * unat (plane_stride oframe 0) + 4 * j"
  then show "copy_alpha_packed host aframe oframe a = bytes oframe a"
    by (intro packed_frame) blast
next
  assume "4 dvd unat (plane_stride oframe 0)" and "c \<in> {1, 2, 3}"
  then show "copy_alpha_packed host aframe oframe
        (data oframe 0 + i * unat (plane_stride oframe 0) + 4 * j + c) =
      bytes oframe (data oframe 0 + i * unat (plane_stride oframe 0) + 4 * j + c)"
    by (intro packed_frame non_alpha_offset)
qed

theorem packed_writes_only_alpha_bytes_witness:
  "4 dvd unat (plane_stride argb8x2 0) \<and> (1::nat) \<in> {1, 2, 3} \<and>
   copy_alpha_packed G_LITTLE_ENDIAN gray8x2 argb8x2 37 = bytes argb8x2 37 \<and>
   copy_alpha_packed G_LITTLE_ENDIAN gray8x2 argb8x2 1 = bytes argb8x2 1 \<and>
   copy_alpha_packed G_BIG_ENDIAN gray8x2 argb8x2 37 = bytes argb8x2 37 \<and>
   copy_alpha_packed G_LITTLE_ENDIAN gray8x2 argb8x2 36 = 9"
proof -
  have "\<forall>i j. i < unat (comp_height gray8x2) \<longrightarrow> j < unat (comp_width gray8x2) \<longrightarrow>
        (1::nat) \<noteq> data argb8x2 0 + i * unat (plane_stride argb8x2 0) + 4 * j"
    by (simp add: gray8x2_def argb8x2_def) presburger
  then have a: "copy_alpha_packed G_LITTLE_ENDIAN gray8x2 argb8x2 1 = bytes argb8x2 1"
    using packed_writes_only_alpha_bytes[where aframe = gray8x2 and oframe = argb8x2
        and a = 1 and host = G_LITTLE_ENDIAN]
    by blast
  have v: "copy_alpha_packed G_LITTLE_ENDIAN gray8x2 argb8x2 36 = 9" by code_simp
  show ?thesis
    using a v
      packed_writes_only_alpha_bytes[where aframe = gray8x2 and oframe = argb8x2
        and c = 1 and i = 1 and j = 1 and host = G_LITTLE_ENDIAN]
      packed_writes_only_alpha_bytes[where aframe = gray8x2 and oframe = argb8x2
        and c = 1 and i = 1 and j = 1 and host = G_BIG_ENDIAN]
    by (simp add: gray8x2_def argb8x2_def)
qed

subsection \<open>The planar copy\<close>

lemma for_rows_memcpy:
  "fst (for_rows (\<lambda>m d s. memcpy m d sm s w) ds ss n (m, dp, sp)) =
   naive_row_copy m dp ds sm sp ss w n"
proof (induction n)
  case 0
  show ?case by simp
next
  case (Suc n)
  show ?case unfolding for_rows_step Suc by simp
qed

text \<open>The per-row copy: what it puts in a pixel byte, and that it leaves the row padding.\<close>

lemma naive_pixel:
  assumes "w \<le> ds" and "i < n" and "j < w"
  shows "naive_row_copy m dp ds sm sp ss w n (dp + i * ds + j) = sm (sp + i * ss + j)"
  using assms(2)
proof (induction n)
  case 0
  then show ?case by simp
next
  case (Suc n)
  show ?case
  proof (cases "i = n")
    case True
    then show ?thesis using assms(3) by (simp add: memcpy_def)
  next
    case False
    then have lt: "i < n" using Suc.prems by simp
    then have "Suc i * ds \<le> n * ds" by (intro mult_le_mono1) simp
    then have "dp + i * ds + j < dp + n * ds" using assms(1,3) by simp
    then show ?thesis using Suc.IH[OF lt] by (simp add: memcpy_def)
  qed
qed

lemma naive_padding:
  assumes "w \<le> ds" and "w \<le> j" and "j < ds"
  shows "naive_row_copy m dp ds sm sp ss w n (dp + i * ds + j) = m (dp + i * ds + j)"
proof (induction n)
  case 0
  show ?case by simp
next
  case (Suc n)
  have out: "\<not> (dp + n * ds \<le> dp + i * ds + j \<and> dp + i * ds + j < dp + n * ds + w)"
  proof (cases "i < n")
    case True
    then have "Suc i * ds \<le> n * ds" by (intro mult_le_mono1) simp
    then have "i * ds + ds \<le> n * ds" by simp
    then show ?thesis using assms(3) by linarith
  next
    case False
    then have "n * ds \<le> i * ds" by (intro mult_le_mono1) simp
    then show ?thesis using assms(2) by linarith
  qed
  have "memcpy (naive_row_copy m dp ds sm sp ss w n) (dp + n * ds) sm (sp + n * ss) w
          (dp + i * ds + j) = naive_row_copy m dp ds sm sp ss w n (dp + i * ds + j)"
    unfolding memcpy_def using out by (simp only: if_False)
  then show ?case using Suc.IH by simp
qed

text \<open>The bulk copy: every byte of a row, padding included, is the source byte.\<close>

lemma bulk_row_byte:
  assumes "unat h * unat s < 2 ^ 32" and "i < unat h" and "j < unat s"
  shows "memcpy m dp sm sp (unat (h * (s :: guint))) (dp + i * unat s + j) =
         sm (sp + i * unat s + j)"
proof -
  have n: "unat (h * s) = unat h * unat s" using assms(1) by (simp add: unat_word_ariths)
  have "Suc i * unat s \<le> unat h * unat s" using assms(2) by (intro mult_le_mono1) simp
  then have "i * unat s + j < unat h * unat s" using assms(3) by simp
  then show ?thesis by (simp add: memcpy_def n add.assoc)
qed

text \<open>
  Claim C8, as amended. On a pair of mapped frames (a row of \<open>width\<close> bytes fits the
  stride; the plane of \<open>height\<close> rows of \<open>stride\<close> bytes is smaller than \<open>2^32\<close> bytes):
  \<^item> every pixel byte (row \<open>i < height\<close>, column \<open>j < width\<close>) of the output plane is
    the one the naive per-row copy of \<open>width\<close> bytes per row produces, on the bulk
    path as on the row path;
  \<^item> when the strides are equal, the bulk copy gives every byte of a row, the padding
    bytes (columns \<open>width\<close> to \<open>stride - 1\<close>) included, the value of the source byte;
  \<^item> the naive per-row copy leaves the padding bytes of the output as they were.
  When the strides differ, \<open>copy_alpha_planar\<close> is the naive per-row copy, on any pair of
  frames.
\<close>

theorem copy_alpha_planar_pixels:
  "(plane_stride aframe 0 \<noteq> plane_stride oframe plane \<longrightarrow>
      copy_alpha_planar aframe oframe plane =
      naive_row_copy (bytes oframe) (data oframe plane) (unat (plane_stride oframe plane))
        (bytes aframe) (data aframe 0) (unat (plane_stride aframe 0))
        (unat (comp_width aframe)) (unat (comp_height aframe))) \<and>
   (planar_rows_fit aframe oframe plane \<longrightarrow>
    i < unat (comp_height aframe) \<longrightarrow> j < unat (comp_width aframe) \<longrightarrow>
      copy_alpha_planar aframe oframe plane
        (data oframe plane + i * unat (plane_stride oframe plane) + j) =
      naive_row_copy (bytes oframe) (data oframe plane) (unat (plane_stride oframe plane))
        (bytes aframe) (data aframe 0) (unat (plane_stride aframe 0))
        (unat (comp_width aframe)) (unat (comp_height aframe))
        (data oframe plane + i * unat (plane_stride oframe plane) + j)) \<and>
   (planar_rows_fit aframe oframe plane \<longrightarrow>
    plane_stride aframe 0 = plane_stride oframe plane \<longrightarrow>
    i < unat (comp_height aframe) \<longrightarrow> k < unat (plane_stride oframe plane) \<longrightarrow>
      copy_alpha_planar aframe oframe plane
        (data oframe plane + i * unat (plane_stride oframe plane) + k) =
      bytes aframe (data aframe 0 + i * unat (plane_stride aframe 0) + k)) \<and>
   (planar_rows_fit aframe oframe plane \<longrightarrow>
    unat (comp_width aframe) \<le> k \<longrightarrow> k < unat (plane_stride oframe plane) \<longrightarrow>
      naive_row_copy (bytes oframe) (data oframe plane) (unat (plane_stride oframe plane))
        (bytes aframe) (data aframe 0) (unat (plane_stride aframe 0))
        (unat (comp_width aframe)) (unat (comp_height aframe))
        (data oframe plane + i * unat (plane_stride oframe plane) + k) =
      bytes oframe (data oframe plane + i * unat (plane_stride oframe plane) + k))"
proof (intro conjI impI)
  assume "plane_stride aframe 0 \<noteq> plane_stride oframe plane"
  then show "copy_alpha_planar aframe oframe plane =
      naive_row_copy (bytes oframe) (data oframe plane) (unat (plane_stride oframe plane))
        (bytes aframe) (data aframe 0) (unat (plane_stride aframe 0))
        (unat (comp_width aframe)) (unat (comp_height aframe))"
    by (simp add: copy_alpha_planar_def Let_def for_rows_memcpy)
next
  assume f: "planar_rows_fit aframe oframe plane"
    and ij: "i < unat (comp_height aframe)" "j < unat (comp_width aframe)"
  have a: "unat (comp_width aframe) \<le> unat (plane_stride oframe plane)"
    "unat (comp_height aframe) * unat (plane_stride aframe 0) < 2 ^ 32"
    using f by (simp_all add: planar_rows_fit_def)
  show "copy_alpha_planar aframe oframe plane
        (data oframe plane + i * unat (plane_stride oframe plane) + j) =
      naive_row_copy (bytes oframe) (data oframe plane) (unat (plane_stride oframe plane))
        (bytes aframe) (data aframe 0) (unat (plane_stride aframe 0))
        (unat (comp_width aframe)) (unat (comp_height aframe))
        (data oframe plane + i * unat (plane_stride oframe plane) + j)"
  proof (cases "plane_stride aframe 0 = plane_stride oframe plane")
    case True
    have "j < unat (plane_stride oframe plane)" using a(1) ij(2) by simp
    then have "copy_alpha_planar aframe oframe plane
        (data oframe plane + i * unat (plane_stride oframe plane) + j) =
        bytes aframe (data aframe 0 + i * unat (plane_stride oframe plane) + j)"
      using a ij True bulk_row_byte[of "comp_height aframe" "plane_stride oframe plane" i j]
      by (simp add: copy_alpha_planar_def Let_def)
    then show ?thesis using a ij True by (simp add: naive_pixel)
  next
    case False
    then show ?thesis by (simp add: copy_alpha_planar_def Let_def for_rows_memcpy)
  qed
next
  assume f: "planar_rows_fit aframe oframe plane"
    and e: "plane_stride aframe 0 = plane_stride oframe plane"
    and ik: "i < unat (comp_height aframe)" "k < unat (plane_stride oframe plane)"
  have "unat (comp_height aframe) * unat (plane_stride oframe plane) < 2 ^ 32"
    using f e by (simp add: planar_rows_fit_def)
  then show "copy_alpha_planar aframe oframe plane
        (data oframe plane + i * unat (plane_stride oframe plane) + k) =
      bytes aframe (data aframe 0 + i * unat (plane_stride aframe 0) + k)"
    using e ik bulk_row_byte[of "comp_height aframe" "plane_stride oframe plane" i k]
    by (simp add: copy_alpha_planar_def Let_def)
next
  assume f: "planar_rows_fit aframe oframe plane"
    and k: "unat (comp_width aframe) \<le> k" "k < unat (plane_stride oframe plane)"
  have "unat (comp_width aframe) \<le> unat (plane_stride oframe plane)"
    using f by (simp add: planar_rows_fit_def)
  then show "naive_row_copy (bytes oframe) (data oframe plane) (unat (plane_stride oframe plane))
        (bytes aframe) (data aframe 0) (unat (plane_stride aframe 0))
        (unat (comp_width aframe)) (unat (comp_height aframe))
        (data oframe plane + i * unat (plane_stride oframe plane) + k) =
      bytes oframe (data oframe plane + i * unat (plane_stride oframe plane) + k)"
    using k by (rule naive_padding)
qed

theorem copy_alpha_planar_pixels_witness:
  "planar_rows_fit pad_alpha pad_out 3 \<and>
   plane_stride pad_alpha 0 = plane_stride pad_out 3 \<and>
   copy_alpha_planar pad_alpha pad_out 3 2 =
   naive_row_copy (bytes pad_out) (data pad_out 3) (unat (plane_stride pad_out 3))
     (bytes pad_alpha) (data pad_alpha 0) (unat (plane_stride pad_alpha 0))
     (unat (comp_width pad_alpha)) (unat (comp_height pad_alpha)) 2 \<and>
   copy_alpha_planar pad_alpha pad_out 3 2 = 7 \<and>
   copy_alpha_planar pad_alpha pad_out 3 3 = bytes pad_alpha 3 \<and>
   naive_row_copy (bytes pad_out) (data pad_out 3) (unat (plane_stride pad_out 3))
     (bytes pad_alpha) (data pad_alpha 0) (unat (plane_stride pad_alpha 0))
     (unat (comp_width pad_alpha)) (unat (comp_height pad_alpha)) 3 = bytes pad_out 3 \<and>
   plane_stride pad_alpha 0 \<noteq> plane_stride argb8x2 0 \<and>
   copy_alpha_planar pad_alpha argb8x2 0 =
   naive_row_copy (bytes argb8x2) (data argb8x2 0) (unat (plane_stride argb8x2 0))
     (bytes pad_alpha) (data pad_alpha 0) (unat (plane_stride pad_alpha 0))
     (unat (comp_width pad_alpha)) (unat (comp_height pad_alpha))"
proof -
  have f: "planar_rows_fit pad_alpha pad_out 3"
    by (simp add: planar_rows_fit_def pad_alpha_def pad_out_def)
  show ?thesis
    using f copy_alpha_planar_pixels[of pad_alpha pad_out 3 0 2 3]
      copy_alpha_planar_pixels[of pad_alpha argb8x2 0]
    by (simp add: pad_alpha_def pad_out_def argb8x2_def copy_alpha_planar_def memcpy_def)
qed

text \<open>
  Claim C8 as stated fails on the padding. For a plane 3 pixels wide with both strides
  equal to 4, the bulk copy of \<open>height * stride\<close> bytes also copies the padding byte at
  address 3, which a per-row copy of \<open>width\<close> bytes leaves as it was.
\<close>

theorem planar_bulk_copies_padding:
  "copy_alpha_planar pad_alpha pad_out 3 3 = 9 \<and>
   naive_row_copy (bytes pad_out) (data pad_out 3) (unat (plane_stride pad_out 3))
     (bytes pad_alpha) (data pad_alpha 0) (unat (plane_stride pad_alpha 0))
     (unat (comp_width pad_alpha)) (unat (comp_height pad_alpha)) 3 = 0"
  by (simp add: copy_alpha_planar_def pad_alpha_def pad_out_def memcpy_def)

text \<open>
  The two conditions on the frames are needed for the pixel bytes. With rows wider than
  the stride (width 2, stride 1, one row) the bulk copy of \<open>height * stride = 1\<close> byte
  does not reach the pixel in column 1, which the per-row copy writes. With a plane of
  \<open>65536 * 65536\<close> bytes the \<open>guint\<close> product \<open>h * ss\<close> is 0 and the bulk copy copies
  nothing, while the per-row copy writes the first pixel.
\<close>

lemma planar_pixels_need_rows_that_fit:
  "\<not> planar_rows_fit narrow_alpha narrow_out 3 \<and>
   copy_alpha_planar narrow_alpha narrow_out 3 1 = 0 \<and>
   naive_row_copy (bytes narrow_out) (data narrow_out 3) (unat (plane_stride narrow_out 3))
     (bytes narrow_alpha) (data narrow_alpha 0) (unat (plane_stride narrow_alpha 0))
     (unat (comp_width narrow_alpha)) (unat (comp_height narrow_alpha)) 1 = 5"
  by (simp add: planar_rows_fit_def copy_alpha_planar_def narrow_alpha_def narrow_out_def
      memcpy_def)

lemma planar_pixels_need_a_plane_below_2_32:
  "\<not> planar_rows_fit tall_alpha tall_out 3 \<and>
   copy_alpha_planar tall_alpha tall_out 3 0 = 0 \<and>
   naive_row_copy (bytes tall_out) (data tall_out 3) (unat (plane_stride tall_out 3))
     (bytes tall_alpha) (data tall_alpha 0) (unat (plane_stride tall_alpha 0))
     (unat (comp_width tall_alpha)) (unat (comp_height tall_alpha)) 0 = 5"
proof -
  have "naive_row_copy (\<lambda>a. 0) 0 65536 (\<lambda>a. 5) 0 65536 1 65536 (0 + 0 * 65536 + 0) = 5"
    by (subst naive_pixel) simp_all
  then show ?thesis
    by (simp add: planar_rows_fit_def copy_alpha_planar_def tall_alpha_def tall_out_def
        memcpy_def)
qed

section \<open>Properties of the synchroniser\<close>

lemma video_loop_Return:
  "video_decide lib thiz buffer start stop clip_start = (Return ret, acts, thiz') \<Longrightarrow>
   video_loop lib env thiz buffer start stop clip_start = Some (ret, acts, thiz')"
  by (cases env) simp_all

lemma video_loop_Goto:
  "video_decide lib thiz buffer start stop clip_start = (Goto_wait_for_alpha_buf w, acts, thiz') \<Longrightarrow>
   video_loop lib (e # env) thiz buffer start stop clip_start =
   video_loop lib env (e thiz') buffer start stop clip_start"
  by simp

lemma pop_alpha_eq: "gst_alpha_mask_pop_alpha thiz = thiz\<lparr>alpha_buffer := None\<rparr>"
  by (simp add: gst_alpha_mask_pop_alpha_def)

lemmas ex_defs = gst_def playing_def buf_def time_segment_def valid_alpha_time_def
  alpha_start_def alpha_end_def alpha_running_time_def alpha_running_time_end_def
  vid_running_time_def vid_running_time_end_def gst_segment_to_running_time_def
  gst_segment_clip_def GST_CLOCK_TIME_NONE_def GST_CLOCK_TIME_IS_VALID_def update_position_def

lemma decide_overlap:
  assumes "\<not> video_flushing thiz" and "\<not> video_eos thiz" and "alpha_buffer thiz = Some abuf"
    and "\<not> (valid_alpha_time abuf \<and>
             alpha_running_time_end lib thiz abuf \<le> vid_running_time lib thiz start)"
    and "\<not> (valid_alpha_time abuf \<and>
             vid_running_time_end lib thiz stop \<le> alpha_running_time lib thiz abuf)"
  shows "video_decide lib thiz buffer start stop clip_start =
           (Return (push_frame_ret lib buffer abuf), [Push_frame buffer abuf],
            update_position clip_start
              (thiz\<lparr>alpha_buffer :=
                 (if \<not> valid_alpha_time abuf \<or>
                     alpha_running_time_end lib thiz abuf \<le> vid_running_time_end lib thiz stop
                  then None else Some abuf)\<rparr>))"
proof (cases "\<not> valid_alpha_time abuf \<or>
     alpha_running_time_end lib thiz abuf \<le> vid_running_time_end lib thiz stop")
  case True
  then show ?thesis using assms by (auto simp: video_decide_def Let_def pop_alpha_eq)
next
  case False
  have eq: "thiz\<lparr>alpha_buffer := Some abuf\<rparr> = thiz" using assms(3) by simp
  show ?thesis using False assms(1,2,4,5)
    by (simp add: video_decide_def Let_def pop_alpha_eq assms(3) eq)
qed

text \<open>
  Claim C1, as amended. When the video stream is neither flushing nor at end-of-stream,
  an alpha buffer is queued, and neither the stale rule nor the premature rule applies
  (which includes every alpha buffer without valid timing), the pass hands exactly this
  video buffer and the queued alpha buffer to \<open>gst_alpha_mask_push_frame\<close>, once, and
  returns its result. Afterwards the alpha buffer is released if and only if its timing
  is invalid or its running-time end is less than or equal to the running-time end of
  the video interval (equal ends release it); otherwise it stays in the slot.
\<close>

theorem overlap_emits_and_releases:
  assumes "\<not> video_flushing thiz" and "\<not> video_eos thiz" and "alpha_buffer thiz = Some abuf"
    and "\<not> (valid_alpha_time abuf \<and>
             alpha_running_time_end lib thiz abuf \<le> vid_running_time lib thiz start)"
    and "\<not> (valid_alpha_time abuf \<and>
             vid_running_time_end lib thiz stop \<le> alpha_running_time lib thiz abuf)"
  shows "video_decide lib thiz buffer start stop clip_start =
           (Return (push_frame_ret lib buffer abuf), [Push_frame buffer abuf],
            update_position clip_start
              (thiz\<lparr>alpha_buffer :=
                 (if \<not> valid_alpha_time abuf \<or>
                     alpha_running_time_end lib thiz abuf \<le> vid_running_time_end lib thiz stop
                  then None else Some abuf)\<rparr>)) \<and>
         video_loop lib env thiz buffer start stop clip_start =
           Some (push_frame_ret lib buffer abuf, [Push_frame buffer abuf],
            update_position clip_start
              (thiz\<lparr>alpha_buffer :=
                 (if \<not> valid_alpha_time abuf \<or>
                     alpha_running_time_end lib thiz abuf \<le> vid_running_time_end lib thiz stop
                  then None else Some abuf)\<rparr>))"
  using decide_overlap[OF assms] video_loop_Return by blast

theorem overlap_emits_and_releases_witness:
  "\<not> video_flushing (playing 0 0 (Some (buf 2 0 33))) \<and>
   \<not> video_eos (playing 0 0 (Some (buf 2 0 33))) \<and>
   alpha_buffer (playing 0 0 (Some (buf 2 0 33))) = Some (buf 2 0 33) \<and>
   video_decide gst (playing 0 0 (Some (buf 2 0 33))) (buf 1 0 33) 0 33 0 =
     (Return GST_FLOW_OK, [Push_frame (buf 1 0 33) (buf 2 0 33)], playing 0 0 None) \<and>
   video_loop gst [] (playing 0 0 (Some (buf 2 0 33))) (buf 1 0 33) 0 33 0 =
     Some (GST_FLOW_OK, [Push_frame (buf 1 0 33) (buf 2 0 33)], playing 0 0 None)"
  using overlap_emits_and_releases[of "playing 0 0 (Some (buf 2 0 33))" "buf 2 0 33" gst 0 33
      "buf 1 0 33" 0 "[]"]
  by (simp add: ex_defs)

text \<open>
  Claim C1 as stated fails for an alpha buffer without a timestamp: its running-time end
  is \<open>GST_CLOCK_TIME_NONE\<close>, which is not less than or equal to the video end 33, and
  yet the buffer is released after the frame is composited ("display it for the current
  video frame only").
\<close>

theorem overlap_invalid_alpha_released:
  "\<not> alpha_running_time_end gst (playing 0 0 (Some (buf 2 GST_CLOCK_TIME_NONE 33))) (buf 2 GST_CLOCK_TIME_NONE 33)
       \<le> vid_running_time_end gst (playing 0 0 (Some (buf 2 GST_CLOCK_TIME_NONE 33))) 33 \<and>
   video_decide gst (playing 0 0 (Some (buf 2 GST_CLOCK_TIME_NONE 33))) (buf 1 0 33) 0 33 0 =
     (Return GST_FLOW_OK, [Push_frame (buf 1 0 33) (buf 2 GST_CLOCK_TIME_NONE 33)], playing 0 0 None)"
  by (simp add: video_decide_def ex_defs Let_def gst_alpha_mask_pop_alpha_def)

lemma decide_stale:
  assumes "\<not> video_flushing thiz" and "\<not> video_eos thiz" and "alpha_buffer thiz = Some abuf"
    and "valid_alpha_time abuf"
    and "alpha_running_time_end lib thiz abuf \<le> vid_running_time lib thiz start"
  shows "video_decide lib thiz buffer start stop clip_start =
           (Goto_wait_for_alpha_buf False, [], thiz\<lparr>alpha_buffer := None\<rparr>)"
  using assms by (simp add: video_decide_def Let_def pop_alpha_eq)

lemma decide_empty_actions:
  assumes "alpha_buffer thiz = None"
  shows "fst (snd (video_decide lib thiz buffer start stop clip_start)) \<in>
           {[], [Pad_push buffer], [Buffer_unref buffer]}"
  using assms by (simp add: video_decide_def)

lemma video_loop_single:
  "video_decide lib thiz buffer start stop clip_start = (Goto_wait_for_alpha_buf w, acts, thiz') \<Longrightarrow>
   video_loop lib [e] thiz buffer start stop clip_start =
     (case video_decide lib (e thiz') buffer start stop clip_start of
        (Return ret, acts', thiz'') \<Rightarrow> Some (ret, acts', thiz'')
      | (Goto_wait_for_alpha_buf waited, acts', thiz'') \<Rightarrow> None)"
  by simp

lemma video_loop_retry_returns:
  "video_decide lib thiz buffer start stop clip_start = (Goto_wait_for_alpha_buf w, acts, thiz') \<Longrightarrow>
   video_decide lib (e thiz') buffer start stop clip_start = (Return ret, acts', thiz'') \<Longrightarrow>
   video_loop lib (e # env) thiz buffer start stop clip_start = Some (ret, acts', thiz'')"
  by (simp add: video_loop_Return)

text \<open>
  Claim C2. When the pass reaches the slot (the video stream is neither flushing nor at
  end-of-stream), the queued alpha buffer has a valid timestamp and duration, and its
  running-time end is less than or equal to the running-time start of the video
  interval, the pass releases the alpha buffer, does nothing with the video buffer and
  jumps back to \<open>wait_for_alpha_buf\<close>: the decision is taken again from the top, for the
  same video buffer, on the state the pipeline left with the slot emptied. What the chain
  function then returns is what that second decision returns: with one change \<open>e\<close> of
  the environment the loop yields exactly the outcome of \<open>video_decide\<close> on \<open>e\<close> of the
  emptied state, and whenever that decision returns, so does the loop, with its result.
  A pass on the emptied slot composites nothing.
\<close>

theorem stale_alpha_released_and_retried:
  assumes "\<not> video_flushing thiz" and "\<not> video_eos thiz" and "alpha_buffer thiz = Some abuf"
    and "valid_alpha_time abuf"
    and "alpha_running_time_end lib thiz abuf \<le> vid_running_time lib thiz start"
  shows "video_decide lib thiz buffer start stop clip_start =
           (Goto_wait_for_alpha_buf False, [], thiz\<lparr>alpha_buffer := None\<rparr>) \<and>
         video_loop lib (e # env) thiz buffer start stop clip_start =
           video_loop lib env (e (thiz\<lparr>alpha_buffer := None\<rparr>)) buffer start stop clip_start \<and>
         video_loop lib [e] thiz buffer start stop clip_start =
           (case video_decide lib (e (thiz\<lparr>alpha_buffer := None\<rparr>)) buffer start stop clip_start of
              (Return ret, acts, thiz') \<Rightarrow> Some (ret, acts, thiz')
            | (Goto_wait_for_alpha_buf waited, acts, thiz') \<Rightarrow> None) \<and>
         (video_decide lib (e (thiz\<lparr>alpha_buffer := None\<rparr>)) buffer start stop clip_start =
            (Return ret, acts, thiz') \<longrightarrow>
          video_loop lib (e # env) thiz buffer start stop clip_start = Some (ret, acts, thiz')) \<and>
         fst (snd (video_decide lib (thiz\<lparr>alpha_buffer := None\<rparr>) buffer start stop clip_start))
           \<in> {[], [Pad_push buffer], [Buffer_unref buffer]}"
proof -
  note d = decide_stale[OF assms, of buffer stop clip_start]
  show ?thesis
    using d video_loop_Goto[OF d] video_loop_single[OF d] video_loop_retry_returns[OF d]
      decide_empty_actions[of "thiz\<lparr>alpha_buffer := None\<rparr>"]
    by simp
qed

theorem stale_alpha_released_and_retried_witness:
  "\<not> video_flushing (alpha_at_eos (Some (buf 2 0 10))) \<and>
   \<not> video_eos (alpha_at_eos (Some (buf 2 0 10))) \<and>
   valid_alpha_time (buf 2 0 10) \<and>
   alpha_running_time_end gst (alpha_at_eos (Some (buf 2 0 10))) (buf 2 0 10)
     \<le> vid_running_time gst (alpha_at_eos (Some (buf 2 0 10))) 20 \<and>
   video_decide gst (alpha_at_eos (Some (buf 2 0 10))) (buf 1 20 33) 20 53 20 =
     (Goto_wait_for_alpha_buf False, [], alpha_at_eos None) \<and>
   video_decide gst (alpha_at_eos None) (buf 1 20 33) 20 53 20 =
     (Return GST_FLOW_OK, [Pad_push (buf 1 20 33)], update_position 20 (alpha_at_eos None)) \<and>
   video_loop gst [id] (alpha_at_eos (Some (buf 2 0 10))) (buf 1 20 33) 20 53 20 =
     Some (GST_FLOW_OK, [Pad_push (buf 1 20 33)], update_position 20 (alpha_at_eos None)) \<and>
   video_loop gst [id] (playing 0 0 (Some (buf 2 0 10))) (buf 1 20 33) 20 53 20 = None"
proof -
  have r: "video_decide gst (alpha_at_eos None) (buf 1 20 33) 20 53 20 =
     (Return GST_FLOW_OK, [Pad_push (buf 1 20 33)], update_position 20 (alpha_at_eos None))"
    by (simp add: video_decide_def no_need_to_wait_def alpha_at_eos_def playing_def gst_def Let_def)
  have w: "video_decide gst (playing 0 0 None) (buf 1 20 33) 20 53 20 =
     (Goto_wait_for_alpha_buf True, [], playing 0 0 None)"
    by (simp add: ex_defs video_decide_def no_need_to_wait_def Let_def)
  show ?thesis
    using r w
      stale_alpha_released_and_retried[of "alpha_at_eos (Some (buf 2 0 10))" "buf 2 0 10" gst 20
        "buf 1 20 33" 53 20 id "[]" GST_FLOW_OK "[Pad_push (buf 1 20 33)]"
        "update_position 20 (alpha_at_eos None)"]
      stale_alpha_released_and_retried[of "playing 0 0 (Some (buf 2 0 10))" "buf 2 0 10" gst 20
        "buf 1 20 33" 53 20 id "[]"]
    by (simp add: ex_defs alpha_at_eos_def)
qed

lemma decide_premature:
  assumes "\<not> video_flushing thiz" and "\<not> video_eos thiz" and "alpha_buffer thiz = Some abuf"
    and "valid_alpha_time abuf"
    and "\<not> alpha_running_time_end lib thiz abuf \<le> vid_running_time lib thiz start"
    and "vid_running_time_end lib thiz stop \<le> alpha_running_time lib thiz abuf"
  shows "video_decide lib thiz buffer start stop clip_start =
           (Return GST_FLOW_OK, [Buffer_unref buffer], update_position clip_start thiz)"
  using assms by (simp add: video_decide_def Let_def)

text \<open>
  Claim C3, as amended. When the pass reaches the slot, the queued alpha buffer has
  valid timing, the stale rule does not apply (the alpha running-time end is greater
  than the video running-time start) and the running-time end of the video interval is
  less than or equal to the running-time start of the alpha buffer, the video buffer is
  dropped, nothing is pushed, the chain function returns \<open>GST_FLOW_OK\<close> and the alpha
  buffer stays in the slot.
\<close>

theorem premature_alpha_drops_video:
  assumes "\<not> video_flushing thiz" and "\<not> video_eos thiz" and "alpha_buffer thiz = Some abuf"
    and "valid_alpha_time abuf"
    and "\<not> alpha_running_time_end lib thiz abuf \<le> vid_running_time lib thiz start"
    and "vid_running_time_end lib thiz stop \<le> alpha_running_time lib thiz abuf"
  shows "video_decide lib thiz buffer start stop clip_start =
           (Return GST_FLOW_OK, [Buffer_unref buffer], update_position clip_start thiz) \<and>
         video_loop lib env thiz buffer start stop clip_start =
           Some (GST_FLOW_OK, [Buffer_unref buffer], update_position clip_start thiz) \<and>
         alpha_buffer (update_position clip_start thiz) = Some abuf"
  using decide_premature[OF assms] video_loop_Return assms(3)
  by (simp add: update_position_def)

theorem premature_alpha_drops_video_witness:
  "\<not> video_flushing (playing 0 0 (Some (buf 2 50 10))) \<and>
   \<not> video_eos (playing 0 0 (Some (buf 2 50 10))) \<and>
   valid_alpha_time (buf 2 50 10) \<and>
   \<not> alpha_running_time_end gst (playing 0 0 (Some (buf 2 50 10))) (buf 2 50 10)
      \<le> vid_running_time gst (playing 0 0 (Some (buf 2 50 10))) 0 \<and>
   vid_running_time_end gst (playing 0 0 (Some (buf 2 50 10))) 33
      \<le> alpha_running_time gst (playing 0 0 (Some (buf 2 50 10))) (buf 2 50 10) \<and>
   video_loop gst [] (playing 0 0 (Some (buf 2 50 10))) (buf 1 0 33) 0 33 0 =
     Some (GST_FLOW_OK, [Buffer_unref (buf 1 0 33)], playing 0 0 (Some (buf 2 50 10)))"
  using premature_alpha_drops_video[of "playing 0 0 (Some (buf 2 50 10))" "buf 2 50 10" gst 0
      33 "buf 1 0 33" 0 "[]"]
  by (simp add: ex_defs)

text \<open>
  Claim C3 as stated fails when the stale rule applies as well, since that rule is
  tested first. A video buffer and an alpha buffer both stamped 10 with duration 0: the
  video end 10 is less than or equal to the alpha start 10, yet the alpha buffer is
  released and the decision retried; the video buffer is not dropped.
\<close>

theorem premature_rule_yields_to_stale:
  "valid_alpha_time (buf 2 10 0) \<and>
   vid_running_time_end gst (playing 0 0 (Some (buf 2 10 0))) 10
      \<le> alpha_running_time gst (playing 0 0 (Some (buf 2 10 0))) (buf 2 10 0) \<and>
   video_clip gst (playing 0 0 (Some (buf 2 10 0))) (buf 1 10 0) = Inr (buf 1 10 0, 10, 10, 10) \<and>
   video_decide gst (playing 0 0 (Some (buf 2 10 0))) (buf 1 10 0) 10 10 10 =
     (Goto_wait_for_alpha_buf False, [], playing 0 0 None)"
  by (simp add: video_decide_def video_clip_def ex_defs Let_def gst_alpha_mask_pop_alpha_def)

lemma no_need_to_wait_spec: "no_need_to_wait lib thiz buffer = spec_do_not_wait lib thiz buffer"
  by (auto simp: no_need_to_wait_def spec_do_not_wait_def Let_def)

text \<open>
  Claim C4. When the pass finds the slot empty (the video stream neither flushing nor at
  end-of-stream), the video buffer is pushed downstream as it is, without waiting, if
  and only if the rule of the specification \<open>spec_do_not_wait\<close> holds; in every other
  case the pass waits on the condition variable and takes the whole decision again on
  the state it finds after waking.
\<close>

theorem empty_slot_forward_or_wait:
  assumes "\<not> video_flushing thiz" and "\<not> video_eos thiz" and "alpha_buffer thiz = None"
  shows "(video_decide lib thiz buffer start stop clip_start =
            (Return (pad_push_ret lib buffer), [Pad_push buffer], update_position clip_start thiz))
          = spec_do_not_wait lib thiz buffer \<and>
         (\<not> spec_do_not_wait lib thiz buffer \<longrightarrow>
            video_decide lib thiz buffer start stop clip_start =
              (Goto_wait_for_alpha_buf True, [], thiz) \<and>
            video_loop lib (e # env) thiz buffer start stop clip_start =
              video_loop lib env (e thiz) buffer start stop clip_start) \<and>
         (spec_do_not_wait lib thiz buffer \<longrightarrow>
            video_loop lib env thiz buffer start stop clip_start =
              Some (pad_push_ret lib buffer, [Pad_push buffer], update_position clip_start thiz))"
proof (cases "spec_do_not_wait lib thiz buffer")
  case True
  then have "video_decide lib thiz buffer start stop clip_start =
            (Return (pad_push_ret lib buffer), [Pad_push buffer], update_position clip_start thiz)"
    using assms by (simp add: video_decide_def no_need_to_wait_spec)
  then show ?thesis using True video_loop_Return by simp
next
  case False
  then have "video_decide lib thiz buffer start stop clip_start =
              (Goto_wait_for_alpha_buf True, [], thiz)"
    using assms by (simp add: video_decide_def no_need_to_wait_spec)
  then show ?thesis using False by simp
qed

theorem empty_slot_forward_or_wait_witness:
  "\<not> video_flushing (after_gap 50) \<and> \<not> video_eos (after_gap 50) \<and>
   alpha_buffer (after_gap 50) = None \<and>
   spec_do_not_wait gst (after_gap 50) (buf 1 0 33) \<and>
   video_decide gst (after_gap 50) (buf 1 0 33) 0 33 0 =
     (Return GST_FLOW_OK, [Pad_push (buf 1 0 33)], after_gap 50) \<and>
   \<not> spec_do_not_wait gst (after_gap 50) (buf 1 60 33) \<and>
   video_decide gst (after_gap 50) (buf 1 60 33) 60 93 60 =
     (Goto_wait_for_alpha_buf True, [], after_gap 50)"
  using empty_slot_forward_or_wait[of "after_gap 50" gst "buf 1 0 33" 0 33 0 id "[]"]
    empty_slot_forward_or_wait[of "after_gap 50" gst "buf 1 60 33" 60 93 60 id "[]"]
  by (simp add: ex_defs spec_do_not_wait_def after_gap_def)

text \<open>
  Claim C5 fails on the code. A video buffer stamped 90 with duration 20 meets a video
  segment that starts at 100: the buffer's stamps are rewritten to 100 and 10, but the
  locals \<open>start = 90\<close> and \<open>stop = 110\<close> keep the values from before the clip, and the
  comparisons with the queued alpha buffer (stamped 100, duration 10) use them. The
  running time of 90 is undefined, so the alpha buffer counts as stale and is released
  without being composited; the chain function then waits for another one. With the
  clipped start 100 the same pass composites the two buffers, which overlap.
\<close>

theorem running_time_uses_unclipped_start:
  "video_clip gst (playing 100 100 (Some (buf 2 100 10))) (buf 1 90 20) =
     Inr (buf 1 100 10, 90, 110, 100) \<and>
   video_decide gst (playing 100 100 (Some (buf 2 100 10))) (buf 1 100 10) 90 110 100 =
     (Goto_wait_for_alpha_buf False, [], playing 100 100 None) \<and>
   video_decide gst (playing 100 100 (Some (buf 2 100 10))) (buf 1 100 10) 100 110 100 =
     (Return GST_FLOW_OK, [Push_frame (buf 1 100 10) (buf 2 100 10)], playing 100 100 None) \<and>
   gst_alpha_mask_video_chain gst [id] (playing 100 100 (Some (buf 2 100 10))) (buf 1 90 20) = None"
  by (simp add: gst_alpha_mask_video_chain_def video_decide_def video_clip_def ex_defs Let_def
      gst_alpha_mask_pop_alpha_def no_need_to_wait_def)

theorem running_time_uses_unclipped_start_witness:
  "video_decide gst (playing 100 100 (Some (buf 2 100 10))) (buf 1 100 10) 90 110 100 =
     (Goto_wait_for_alpha_buf False, [], playing 100 100 None)"
  using running_time_uses_unclipped_start by blast

text \<open>
  Claim C6 fails on the alpha stream. An alpha buffer stamped 90 without duration meets
  an alpha segment that starts at 100: \<open>gst_alpha_mask_alpha_chain\<close> has no guard before
  the clip, the buffer is accepted and queued with its timestamp moved to 100. The
  video chain rejects a buffer with the same stamps.
\<close>

theorem alpha_chain_snaps_undated_stop:
  "gst_alpha_mask_alpha_chain gst [] (playing 100 100 None) (buf 2 90 GST_CLOCK_TIME_NONE) =
     Some (GST_FLOW_OK, [], playing 100 100 (Some (buf 2 100 GST_CLOCK_TIME_NONE))) \<and>
   gst_alpha_mask_video_chain gst [] (playing 100 100 None) (buf 1 90 GST_CLOCK_TIME_NONE) =
     Some (GST_FLOW_OK, [Buffer_unref (buf 1 90 GST_CLOCK_TIME_NONE)], playing 100 100 None)"
  by (simp add: gst_alpha_mask_alpha_chain_def gst_alpha_mask_video_chain_def video_clip_def
      ex_defs Let_def)

theorem alpha_chain_snaps_undated_stop_witness:
  "gst_alpha_mask_alpha_chain gst [] (playing 100 100 None) (buf 2 90 GST_CLOCK_TIME_NONE) =
     Some (GST_FLOW_OK, [], playing 100 100 (Some (buf 2 100 GST_CLOCK_TIME_NONE)))"
  using alpha_chain_snaps_undated_stop by blast

text \<open>
  Claim C10 fails on the duration. An alpha buffer without timestamp and with duration 40
  is queued without a call to the clip and without a change to the segment position,
  whatever the library does, but its duration is rewritten to
  \<open>clip_stop - clip_start = 0 - 0\<close>.
\<close>

theorem undated_alpha_duration_zeroed:
  "gst_alpha_mask_alpha_chain lib [] (playing 0 0 None) (buf 2 GST_CLOCK_TIME_NONE 40) =
     Some (GST_FLOW_OK, [], playing 0 0 (Some (buf 2 GST_CLOCK_TIME_NONE 0)))"
  by (simp add: gst_alpha_mask_alpha_chain_def ex_defs Let_def)

theorem undated_alpha_duration_zeroed_witness:
  "gst_alpha_mask_alpha_chain gst [] (playing 0 0 None) (buf 2 GST_CLOCK_TIME_NONE 40) =
     Some (GST_FLOW_OK, [], playing 0 0 (Some (buf 2 GST_CLOCK_TIME_NONE 0)))"
  using undated_alpha_duration_zeroed[of gst] .

end
